theory Spec2Isabelle
  imports Main
begin

section \<open>Reservation export automation: a shallow embedding of main.py\<close>

text \<open>
  The program reads three configuration values, asks for two dates, drives a browser
  through a login and a date filter, downloads a CSV export and writes it as JSON.
  Python strings are modelled as \<^typ>\<open>string\<close>, one \<^typ>\<open>char\<close> per code point; the model
  covers code points below 256, where the classes the program uses (\<^verbatim>\<open>\d\<close>,
  \<^verbatim>\<open>str.isspace\<close>) are the finite sets written out below.
\<close>

subsection \<open>Configuration (main.py, lines 16-20 and 182-184)\<close>

text \<open>
  \<^verbatim>\<open>os.environ\<close> after \<^verbatim>\<open>load_dotenv()\<close> is a dictionary from names to strings;
  \<^verbatim>\<open>os.getenv\<close> returns \<^verbatim>\<open>None\<close> for a name that is not set.
\<close>

type_synonym environ = "string \<rightharpoonup> string"

definition getenv :: "environ \<Rightarrow> string \<Rightarrow> string option" where
  "getenv e k = e k"

text \<open>Python's truth value of an optional string: \<^verbatim>\<open>None\<close> and \<^verbatim>\<open>""\<close> are false.\<close>

fun truthy :: "string option \<Rightarrow> bool" where
  "truthy None = False"
| "truthy (Some s) = (s \<noteq> [])"

text \<open>
  \<^verbatim>\<open>os.getenv("WEBSITE_URL") or "https://app.littlehotelier.com/"\<close>: the left
  operand when it is true, the literal otherwise; the result is always a string.
\<close>

definition DEFAULT_URL :: string where
  "DEFAULT_URL = ''https://app.littlehotelier.com/''"

definition py_or :: "string option \<Rightarrow> string \<Rightarrow> string" where
  "py_or a b = (case a of None \<Rightarrow> b | Some x \<Rightarrow> if truthy a then x else b)"

definition WEBSITE_URL :: "environ \<Rightarrow> string" where
  "WEBSITE_URL e = py_or (getenv e ''WEBSITE_URL'') DEFAULT_URL"

definition USER_EMAIL :: "environ \<Rightarrow> string option" where
  "USER_EMAIL e = getenv e ''USER_EMAIL''"

definition USER_PASS :: "environ \<Rightarrow> string option" where
  "USER_PASS e = getenv e ''USER_PASS''"

text \<open>
  \<^verbatim>\<open>if not all([WEBSITE_URL, USER_EMAIL, USER_PASS])\<close>: the guard of the
  missing-configuration exit.
\<close>

definition missing_configuration :: "environ \<Rightarrow> bool" where
  "missing_configuration e =
     (\<not> list_all truthy [Some (WEBSITE_URL e), USER_EMAIL e, USER_PASS e])"

subsection \<open>Characters and strings\<close>

text \<open>
  \<^verbatim>\<open>str.isspace\<close> below code point 256: tab to carriage return, the four separators
  1C-1F, the space, NEL (85) and the no-break space (A0). \<^verbatim>\<open>\d\<close> below 256 is 0-9.
\<close>

definition is_space :: "char \<Rightarrow> bool" where
  "is_space c = (c \<in> set [CHR 0x09, CHR 0x0A, CHR 0x0B, CHR 0x0C, CHR 0x0D, CHR 0x1C, CHR 0x1D,
     CHR 0x1E, CHR 0x1F, CHR 0x20, CHR 0x85, CHR 0xA0])"

definition strip :: "string \<Rightarrow> string" where
  "strip s = rev (dropWhile is_space (rev (dropWhile is_space s)))"

definition between :: "char \<Rightarrow> char \<Rightarrow> char \<Rightarrow> bool" where
  "between lo hi c = ((of_char lo :: nat) \<le> of_char c \<and> (of_char c :: nat) \<le> of_char hi)"

definition is_digit :: "char \<Rightarrow> bool" where
  "is_digit c = between CHR ''0'' CHR ''9'' c"

definition digit_val :: "char \<Rightarrow> nat" where
  "digit_val c = of_char c - 48"

definition digit_char :: "nat \<Rightarrow> char" where
  "digit_char n = char_of (48 + n)"

text \<open>\<^verbatim>\<open>int(s)\<close> on a string of decimal digits, surrounding white space ignored.\<close>

definition py_int :: "string \<Rightarrow> nat" where
  "py_int s = foldl (\<lambda>n c. 10 * n + digit_val c) 0 (strip s)"

text \<open>\<^verbatim>\<open>str.upper\<close> on the letters a-z; the program applies it to the output of
  \<^verbatim>\<open>strftime\<close> only, which has no other cased character.\<close>

definition upper_char :: "char \<Rightarrow> char" where
  "upper_char c = (if between CHR ''a'' CHR ''z'' c then char_of (of_char c - (32::nat)) else c)"

definition upper :: "string \<Rightarrow> string" where
  "upper s = map upper_char s"

subsection \<open>The date pattern (main.py, line 31)\<close>

text \<open>
  \<^verbatim>\<open>re.compile(r"^\d{2}-\d{2}-\d{4}$").match\<close>. The pieces of the pattern are
  consumed from the left; \<^verbatim>\<open>$\<close> accepts the end of the string and also the position
  before one final newline.
\<close>

fun digits :: "nat \<Rightarrow> string \<Rightarrow> string option" where
  "digits 0 s = Some s"
| "digits (Suc n) [] = None"
| "digits (Suc n) (c # cs) = (if is_digit c then digits n cs else None)"

fun expect :: "char \<Rightarrow> string \<Rightarrow> string option" where
  "expect x [] = None"
| "expect x (c # cs) = (if c = x then Some cs else None)"

definition at_dollar :: "string \<Rightarrow> bool" where
  "at_dollar rest = (rest = [] \<or> rest = [CHR 0x0A])"

definition date_pattern_match :: "string \<Rightarrow> bool" where
  "date_pattern_match s =
     (case Option.bind (Option.bind (Option.bind (Option.bind (digits 2 s)
            (expect CHR ''-'')) (digits 2)) (expect CHR ''-'')) (digits 4) of
        None \<Rightarrow> False
      | Some rest \<Rightarrow> at_dollar rest)"

subsection \<open>strptime with the format %d-%m-%Y (main.py, line 43)\<close>

text \<open>
  \<^verbatim>\<open>datetime.strptime\<close> turns the format into the regular expression
  \<^verbatim>\<open>(?P<d>3[0-1]|[1-2]\d|0[1-9]|[1-9]| [1-9])-(?P<m>1[0-2]|0[1-9]|[1-9])-(?P<Y>\d\d\d\d)\<close>,
  matches it at the start of the string and raises \<^verbatim>\<open>ValueError\<close> when it does not
  match or when text remains after the match. A group is modelled by the list of its
  matches in the order the alternatives are tried, each with the rest of the string, so
  that the first element of the combined list is the match of a backtracking matcher.
\<close>

fun seq1 :: "(char \<Rightarrow> bool) \<Rightarrow> string \<Rightarrow> (string \<times> string) list" where
  "seq1 p (a # r) = (if p a then [([a], r)] else [])"
| "seq1 p [] = []"

fun seq2 :: "(char \<Rightarrow> bool) \<Rightarrow> (char \<Rightarrow> bool) \<Rightarrow> string \<Rightarrow> (string \<times> string) list" where
  "seq2 p q (a # b # r) = (if p a \<and> q b then [([a, b], r)] else [])"
| "seq2 p q [a] = []"
| "seq2 p q [] = []"

definition only :: "char \<Rightarrow> char \<Rightarrow> bool" where
  "only x c = (c = x)"

definition day_group :: "string \<Rightarrow> (string \<times> string) list" where
  "day_group s =
     seq2 (only CHR ''3'') (between CHR ''0'' CHR ''1'') s
     @ seq2 (between CHR ''1'' CHR ''2'') is_digit s
     @ seq2 (only CHR ''0'') (between CHR ''1'' CHR ''9'') s
     @ seq1 (between CHR ''1'' CHR ''9'') s
     @ seq2 (only CHR '' '') (between CHR ''1'' CHR ''9'') s"

definition month_group :: "string \<Rightarrow> (string \<times> string) list" where
  "month_group s =
     seq2 (only CHR ''1'') (between CHR ''0'' CHR ''2'') s
     @ seq2 (only CHR ''0'') (between CHR ''1'' CHR ''9'') s
     @ seq1 (between CHR ''1'' CHR ''9'') s"

fun year_group :: "string \<Rightarrow> (string \<times> string) list" where
  "year_group (a # b # c # d # r) =
     (if is_digit a \<and> is_digit b \<and> is_digit c \<and> is_digit d then [([a, b, c, d], r)] else [])"
| "year_group s = []"

definition hyphen :: "string \<Rightarrow> string list" where
  "hyphen s = (case expect CHR ''-'' s of None \<Rightarrow> [] | Some r \<Rightarrow> [r])"

definition format_regex_matches :: "string \<Rightarrow> ((string \<times> string \<times> string) \<times> string) list" where
  "format_regex_matches s =
     [((d, m, y), r5). (d, r1) \<leftarrow> day_group s, r2 \<leftarrow> hyphen r1, (m, r3) \<leftarrow> month_group r2,
        r4 \<leftarrow> hyphen r3, (y, r5) \<leftarrow> year_group r4]"

text \<open>
  The date constructor (\<^verbatim>\<open>_check_date_fields\<close>): years 1 to 9999, months 1 to 12, days
  up to the length of the month. Index 0 of the table is a placeholder the lookup never
  reaches, since the month is checked first.
\<close>

definition is_leap :: "nat \<Rightarrow> bool" where
  "is_leap y = (y mod 4 = 0 \<and> (y mod 100 \<noteq> 0 \<or> y mod 400 = 0))"

definition DAYS_IN_MONTH :: "nat list" where
  "DAYS_IN_MONTH = [0, 31, 28, 31, 30, 31, 30, 31, 31, 30, 31, 30, 31]"

definition days_in_month :: "nat \<Rightarrow> nat \<Rightarrow> nat" where
  "days_in_month y m = (if m = 2 \<and> is_leap y then 29 else DAYS_IN_MONTH ! m)"

definition check_date_fields :: "nat \<Rightarrow> nat \<Rightarrow> nat \<Rightarrow> bool" where
  "check_date_fields y m d =
     (1 \<le> y \<and> y \<le> 9999 \<and> 1 \<le> m \<and> m \<le> 12 \<and> 1 \<le> d \<and> d \<le> days_in_month y m)"

record date =
  year :: nat
  month :: nat
  day :: nat

text \<open>\<^verbatim>\<open>None\<close> stands for the \<^verbatim>\<open>ValueError\<close> the program catches.\<close>

definition strptime :: "string \<Rightarrow> date option" where
  "strptime s =
     (case format_regex_matches s of
        [] \<Rightarrow> None
      | ((d, m, y), rest) # _ \<Rightarrow>
          if rest \<noteq> [] then None
          else if check_date_fields (py_int y) (py_int m) (py_int d)
          then Some \<lparr>year = py_int y, month = py_int m, day = py_int d\<rparr>
          else None)"

subsection \<open>strftime with the format %d %b %Y (main.py, line 44)\<close>

text \<open>
  \<^verbatim>\<open>%d\<close> prints the day with two digits and \<^verbatim>\<open>%b\<close> the month's abbreviation in the
  C locale, which the program never changes. \<^verbatim>\<open>%Y\<close> is handed to the C library:
  glibc prints the year without padding, other libraries pad it with zeros to four
  digits; the model takes the library's behaviour as a parameter.
\<close>

datatype year_style = Unpadded | Zero_padded

fun show_nat :: "nat \<Rightarrow> string" where
  "show_nat n = (if n < 10 then [digit_char n] else show_nat (n div 10) @ [digit_char (n mod 10)])"

declare show_nat.simps [simp del]

definition pad2 :: "nat \<Rightarrow> string" where
  "pad2 n = [digit_char (n div 10), digit_char (n mod 10)]"

fun fmt_year :: "year_style \<Rightarrow> nat \<Rightarrow> string" where
  "fmt_year Unpadded y = show_nat y"
| "fmt_year Zero_padded y = replicate (4 - length (show_nat y)) CHR ''0'' @ show_nat y"

definition MONTH_ABBR :: "string list" where
  "MONTH_ABBR = [''Jan'', ''Feb'', ''Mar'', ''Apr'', ''May'', ''Jun'',
                 ''Jul'', ''Aug'', ''Sep'', ''Oct'', ''Nov'', ''Dec'']"

definition strftime :: "year_style \<Rightarrow> date \<Rightarrow> string" where
  "strftime st dt = pad2 (day dt) @ '' '' @ MONTH_ABBR ! (month dt - 1) @ '' '' @ fmt_year st (year dt)"

subsection \<open>The Date Input Validator (main.py, lines 29-49)\<close>

text \<open>
  One round of the loop of \<^verbatim>\<open>get_date_input\<close> on the line the user typed. The result
  records which of the two library checks ran; the two rejections are the two messages
  the program prints before it asks again. The returned two-element list
  \<^verbatim>\<open>[user_input, formatted_date]\<close> is a pair: index 0 is \<^term>\<open>fst\<close>, index 1 is \<^term>\<open>snd\<close>.
\<close>

datatype date_error = InvalidFormat | InvalidCalendarDate

datatype lib_call = Call_match | Call_strptime

definition date_attempt :: "year_style \<Rightarrow> string \<Rightarrow> lib_call list \<times> (date_error + string \<times> string)" where
  "date_attempt st line =
     (let user_input = strip line in
      if \<not> date_pattern_match user_input then ([Call_match], Inl InvalidFormat)
      else case strptime user_input of
             None \<Rightarrow> ([Call_match, Call_strptime], Inl InvalidCalendarDate)
           | Some parsed_date \<Rightarrow>
               ([Call_match, Call_strptime], Inr (user_input, upper (strftime st parsed_date))))"

text \<open>
  The loop itself, over the lines that standard input still holds: it asks again after
  each rejection, with no bound on the number of rounds. \<^verbatim>\<open>input()\<close> raises
  \<^verbatim>\<open>EOFError\<close> when the input is exhausted, which is the result \<^term>\<open>None\<close>.
\<close>

fun get_date_input :: "year_style \<Rightarrow> string list \<Rightarrow> ((string \<times> string) \<times> string list) option" where
  "get_date_input st [] = None"
| "get_date_input st (line # rest) =
     (case snd (date_attempt st line) of
        Inl _ \<Rightarrow> get_date_input st rest
      | Inr r \<Rightarrow> Some (r, rest))"

subsection \<open>The parsed table and the pandas steps (main.py, lines 137-163)\<close>

text \<open>
  \<^verbatim>\<open>pd.read_csv\<close> is library code: the model takes the table it returns. A table is a
  list of columns in header order, each with its label, its numpy dtype and one cell per
  row. A present cell carries the parsed scalar as a value of type \<open>'v\<close>; the steps
  below may change the machine type of a present scalar (the float 1.0 of an integer
  column with gaps becomes the integer 1), which the model does not follow: present
  values pass unchanged. The three markers of a missing value are kept apart: the float
  \<^verbatim>\<open>nan\<close> that \<^verbatim>\<open>read_csv\<close> puts in an empty or absent cell, Python's \<^verbatim>\<open>None\<close>
  and \<^verbatim>\<open>pd.NA\<close>. An object column carries what pandas infers from its present values.
  The steps are those of pandas 2.
\<close>

datatype 'v cell = NaN | PyNone | NA | Val 'v

datatype inferred = Strings | Booleans | Mixed

datatype dtype = Int64 | Float64 | Bool | Object inferred | Extension

record 'v column =
  label :: string
  dtype :: dtype
  cells :: "'v cell list"

type_synonym 'v dataframe = "'v column list"

fun notnull :: "'v cell \<Rightarrow> bool" where
  "notnull (Val v) = True"
| "notnull c = False"

text \<open>
  \<^verbatim>\<open>df.where(pd.notnull(df), None)\<close> keeps a cell that is not null and puts the
  replacement elsewhere: \<^verbatim>\<open>None\<close> in an object column; a float column keeps
  \<^verbatim>\<open>nan\<close> and a nullable column \<^verbatim>\<open>pd.NA\<close>, their own missing value. Integer and
  boolean columns from \<^verbatim>\<open>read_csv\<close> have no missing cell, so nothing is replaced there.
\<close>

fun fill_value :: "dtype \<Rightarrow> 'v cell \<Rightarrow> 'v cell" where
  "fill_value (Object t) c = PyNone"
| "fill_value Float64 c = NaN"
| "fill_value Extension c = NA"
| "fill_value Int64 c = c"
| "fill_value Bool c = c"

definition where_notnull_None :: "'v dataframe \<Rightarrow> 'v dataframe" where
  "where_notnull_None df =
     map (\<lambda>col. col\<lparr>cells := map (\<lambda>c. if notnull c then c else fill_value (dtype col) c) (cells col)\<rparr>) df"

text \<open>
  \<^verbatim>\<open>convert_dtypes()\<close> gives each column a nullable extension dtype, whose missing
  value is \<^verbatim>\<open>pd.NA\<close>; an object column of mixed values stays as it is.
\<close>

fun to_NA :: "'v cell \<Rightarrow> 'v cell" where
  "to_NA (Val v) = Val v"
| "to_NA c = NA"

definition convert_column :: "'v column \<Rightarrow> 'v column" where
  "convert_column col =
     (if dtype col = Object Mixed then col
      else col\<lparr>dtype := Extension, cells := map to_NA (cells col)\<rparr>)"

definition convert_dtypes :: "'v dataframe \<Rightarrow> 'v dataframe" where
  "convert_dtypes df = map convert_column df"

definition columns_to_keep :: "string list" where
  "columns_to_keep =
     [''Status'', ''Guest first name'', ''Guest last name'', ''Booking reference'', ''Source'',
      ''Occupants'', ''Check in date'', ''Check out date'', ''Booked'', ''ETA'', ''Rooms'',
      ''Payment total'', ''Payment outstanding'', ''Invoice Number'', ''Guest email'',
      ''Guest phone number'']"

text \<open>
  \<^verbatim>\<open>df[[col for col in columns_to_keep if col in df.columns]]\<close>: the labels of the
  list that the table has, then for each of them the columns with that label.
\<close>

definition df_columns :: "'v dataframe \<Rightarrow> string list" where
  "df_columns df = map label df"

definition kept_labels :: "'v dataframe \<Rightarrow> string list" where
  "kept_labels df = filter (\<lambda>col. col \<in> set (df_columns df)) columns_to_keep"

definition select_columns :: "string list \<Rightarrow> 'v dataframe \<Rightarrow> 'v dataframe" where
  "select_columns labels df = concat (map (\<lambda>l. filter (\<lambda>col. label col = l) df) labels)"

text \<open>
  \<^verbatim>\<open>df.to_dict(orient="records")\<close> zips the columns: one dictionary per row, keys in
  column order, and no dictionary at all when the table has no column. The values of an
  object or extension column are boxed, which turns \<^verbatim>\<open>pd.NA\<close> into \<^verbatim>\<open>None\<close>. A
  dictionary is an association list, in insertion order.
\<close>

fun box_native :: "dtype \<Rightarrow> 'v cell \<Rightarrow> 'v cell" where
  "box_native (Object t) NA = PyNone"
| "box_native Extension NA = PyNone"
| "box_native d c = c"

type_synonym 'v py_record = "(string \<times> 'v cell) list"

definition n_tuples :: "'v dataframe \<Rightarrow> nat" where
  "n_tuples df = (case df of [] \<Rightarrow> 0 | col # cols \<Rightarrow> fold min (map (\<lambda>c. length (cells c)) cols) (length (cells col)))"

definition row_record :: "'v dataframe \<Rightarrow> nat \<Rightarrow> 'v py_record" where
  "row_record df i = map (\<lambda>col. (label col, box_native (dtype col) (cells col ! i))) df"

definition to_dict_records :: "'v dataframe \<Rightarrow> 'v py_record list" where
  "to_dict_records df = map (row_record df) [0..<n_tuples df]"

subsection \<open>json.dump (main.py, lines 169-170)\<close>

text \<open>
  \<^verbatim>\<open>json.dump\<close> writes the document piece by piece. The text is modelled by its
  tokens, white space left out. \<^verbatim>\<open>None\<close> is written as \<^verbatim>\<open>null\<close> and the float
  \<^verbatim>\<open>nan\<close> as \<^verbatim>\<open>NaN\<close>; \<^verbatim>\<open>pd.NA\<close> is no JSON value and raises
  \<^verbatim>\<open>TypeError\<close> when the encoder reaches it, after the pieces before it were written.
  A write can also fail in the operating system: the parameter \<open>limit\<close> is the number of
  pieces the file accepts before a write raises, \<^term>\<open>None\<close> when every write succeeds.
\<close>

datatype 'v token = LBracket | RBracket | LBrace | RBrace | Comma | Colon
  | TKey string | TNull | TNaN | TScalar 'v

fun join :: "'a \<Rightarrow> 'a list list \<Rightarrow> 'a list" where
  "join sep [] = []"
| "join sep [x] = x"
| "join sep (x # y # ys) = x @ sep # join sep (y # ys)"

fun value_event :: "'v cell \<Rightarrow> 'v token option" where
  "value_event NaN = Some TNaN"
| "value_event PyNone = Some TNull"
| "value_event NA = None"
| "value_event (Val v) = Some (TScalar v)"

definition field_events :: "string \<times> 'v cell \<Rightarrow> 'v token option list" where
  "field_events kv = [Some (TKey (fst kv)), Some Colon, value_event (snd kv)]"

definition record_events :: "'v py_record \<Rightarrow> 'v token option list" where
  "record_events r = Some LBrace # join (Some Comma) (map field_events r) @ [Some RBrace]"

definition iterencode :: "'v py_record list \<Rightarrow> 'v token option list" where
  "iterencode rs = Some LBracket # join (Some Comma) (map record_events rs) @ [Some RBracket]"

datatype site = Chrome | Maximize | Get | Wait_username | Send_email | Wait_password
  | Send_password | Wait_dashboard | Find_reservations | Click_reservations
  | Wait_date_from | Clear_from | Send_from | Wait_date_to | Clear_to | Send_to
  | Find_submit | Click_submit | Wait_export | Get_href | Get_cookies | Http_get | Open_file

datatype exn = Raised site | UrlTimeout | HTTPError nat | ParserError | TypeError | WriteError

definition json_dump :: "nat option \<Rightarrow> 'v py_record list \<Rightarrow> 'v token list \<times> exn option" where
  "json_dump limit rs =
     (let evs = iterencode rs;
          toks = map the (takeWhile (\<lambda>e. e \<noteq> None) evs);
          encoded = (if length toks = length evs then None else Some TypeError)
      in case limit of
           None \<Rightarrow> (toks, encoded)
         | Some n \<Rightarrow> if n < length toks then (take n toks, Some WriteError) else (toks, encoded))"

subsection \<open>The outside world\<close>

text \<open>
  Everything the program gets from outside is a field of the world: the environment
  variables, the C library's year format, which calls of the browser, the network and
  the file system raise (by the place of the call in the program), the locations the
  application shows, its answer to a submitted filter (the locations that the polls of
  the wait read, one after the other, given the location before and the two texts in the
  filter inputs), the export link, the library's \<^verbatim>\<open>urljoin\<close>, the browser's cookies,
  the HTTP response for a URL and a cookie jar, the table \<^verbatim>\<open>read_csv\<close> parses from a
  text (\<^term>\<open>None\<close> when it raises) and the limit of the output file.
\<close>

record 'v world =
  environ :: environ
  libc :: year_style
  raises :: "site \<Rightarrow> bool"
  dashboard_url :: string
  list_url :: string
  submit_filter :: "string \<Rightarrow> string \<Rightarrow> string \<Rightarrow> string list"
  export_href :: "string option"
  urljoin :: "string \<Rightarrow> string option \<Rightarrow> string"
  browser_cookies :: "(string \<times> string) list"
  http_get :: "string \<Rightarrow> (string \<rightharpoonup> string) \<Rightarrow> nat \<times> string"
  read_csv :: "string \<Rightarrow> 'v dataframe option"
  write_limit :: "nat option"

text \<open>
  The state the program changes: the lines left on standard input, the files (a name
  maps to the tokens written to it), the number of browser sessions that are open, and
  the URLs the browser was sent to.
\<close>

record 'v sys =
  stdin :: "string list"
  files :: "string \<rightharpoonup> 'v token list"
  open_sessions :: nat
  navigations :: "string list"

text \<open>The browser handle: its location and the texts in the two filter inputs.\<close>

record driver =
  current_url :: string
  from_field :: string
  to_field :: string

definition call :: "'v world \<Rightarrow> site \<Rightarrow> exn + unit" where
  "call w x = (if raises w x then Inl (Raised x) else Inr ())"

definition and_then :: "exn + 'a \<Rightarrow> ('a \<Rightarrow> exn + 'b) \<Rightarrow> exn + 'b" where
  "and_then r f = (case r of Inl e \<Rightarrow> Inl e | Inr x \<Rightarrow> f x)"

subsection \<open>The stages (main.py, lines 53-174)\<close>

text \<open>
  \<^verbatim>\<open>initialize_driver\<close>: \<^verbatim>\<open>webdriver.Chrome()\<close> opens the session, then
  \<^verbatim>\<open>maximize_window()\<close> is called on it; the handle is returned only when both
  calls return.
\<close>

definition initialize_driver :: "'v world \<Rightarrow> 'v sys \<Rightarrow> (exn + driver) \<times> 'v sys" where
  "initialize_driver w s =
     (if raises w Chrome then (Inl (Raised Chrome), s)
      else let s1 = s\<lparr>open_sessions := open_sessions s + 1\<rparr>;
               drv = \<lparr>current_url = ''data:,'', from_field = [], to_field = []\<rparr>
           in if raises w Maximize then (Inl (Raised Maximize), s1) else (Inr drv, s1))"

definition login :: "'v world \<Rightarrow> driver \<Rightarrow> 'v sys \<Rightarrow> (exn + driver) \<times> 'v sys" where
  "login w drv s =
     (let s1 = s\<lparr>navigations := navigations s @ [WEBSITE_URL (environ w)]\<rparr>
      in (and_then (call w Get) (\<lambda>_.
          and_then (call w Wait_username) (\<lambda>_.
          and_then (call w Send_email) (\<lambda>_.
          and_then (call w Wait_password) (\<lambda>_.
          and_then (call w Send_password) (\<lambda>_.
          and_then (call w Wait_dashboard) (\<lambda>_.
          Inr (drv\<lparr>current_url := dashboard_url w\<rparr>))))))), s1))"

text \<open>\<^verbatim>\<open>driver.find_element(By.LINK_TEXT, "Reservations").click()\<close> (line 194).\<close>

definition open_reservations :: "'v world \<Rightarrow> driver \<Rightarrow> exn + driver" where
  "open_reservations w drv =
     and_then (call w Find_reservations) (\<lambda>_.
     and_then (call w Click_reservations) (\<lambda>_.
     Inr (drv\<lparr>current_url := list_url w\<rparr>)))"

text \<open>
  \<^verbatim>\<open>WebDriverWait(driver, 30).until(lambda d: d.current_url != old_url)\<close> reads the
  location at each poll and returns at the first one that differs; when the time is up
  and none did, it raises \<^verbatim>\<open>TimeoutException\<close>.
\<close>

definition wait_url_change :: "string \<Rightarrow> string list \<Rightarrow> exn + string" where
  "wait_url_change old_url polls =
     (case find (\<lambda>u. u \<noteq> old_url) polls of None \<Rightarrow> Inl UrlTimeout | Some u \<Rightarrow> Inr u)"

definition apply_date_filters :: "'v world \<Rightarrow> driver \<Rightarrow> string \<Rightarrow> string \<Rightarrow> exn + driver" where
  "apply_date_filters w drv date_from date_to =
     (let old_url = current_url drv in
      and_then (call w Wait_date_from) (\<lambda>_.
      and_then (call w Clear_from) (\<lambda>_.
      and_then (call w Send_from) (\<lambda>_.
      let drv1 = drv\<lparr>from_field := date_from\<rparr> in
      and_then (call w Wait_date_to) (\<lambda>_.
      and_then (call w Clear_to) (\<lambda>_.
      and_then (call w Send_to) (\<lambda>_.
      let drv2 = drv1\<lparr>to_field := date_to\<rparr> in
      and_then (call w Find_submit) (\<lambda>_.
      and_then (call w Click_submit) (\<lambda>_.
      and_then (wait_url_change old_url
                  (submit_filter w old_url (from_field drv2) (to_field drv2))) (\<lambda>u.
      Inr (drv2\<lparr>current_url := u\<rparr>)))))))))))"

text \<open>
  \<^verbatim>\<open>raise_for_status()\<close> raises for the statuses 400 to 599 and for no other.
\<close>

definition raise_for_status :: "nat \<Rightarrow> exn + unit" where
  "raise_for_status status =
     (if 400 \<le> status \<and> status < 600 then Inl (HTTPError status) else Inr ())"

definition cookie_jar :: "(string \<times> string) list \<Rightarrow> (string \<rightharpoonup> string)" where
  "cookie_jar cookies = foldl (\<lambda>jar c. jar(fst c \<mapsto> snd c)) Map.empty cookies"

definition output_filename :: "string \<Rightarrow> string \<Rightarrow> string" where
  "output_filename date_from date_to = ''reservations_'' @ date_from @ ''_to_'' @ date_to @ ''.json''"

text \<open>
  Steps 1 to 4 of \<^verbatim>\<open>download_and_parse_csv\<close>: the export link, the cookies, the
  download and the parser. None of them touches a file.
\<close>

definition fetch_table :: "'v world \<Rightarrow> driver \<Rightarrow> exn + 'v dataframe" where
  "fetch_table w drv =
     and_then (call w Wait_export) (\<lambda>_.
     and_then (call w Get_href) (\<lambda>_.
     let full_url = urljoin w (current_url drv) (export_href w) in
     and_then (call w Get_cookies) (\<lambda>_.
     let session = cookie_jar (browser_cookies w) in
     and_then (call w Http_get) (\<lambda>_.
     let response = http_get w full_url session in
     and_then (raise_for_status (fst response)) (\<lambda>_.
     case read_csv w (snd response) of None \<Rightarrow> Inl ParserError | Some df \<Rightarrow> Inr df)))))"

text \<open>Steps 5 and 6: the null replacement, the dtypes, the projection, the records.\<close>

definition normalize :: "'v dataframe \<Rightarrow> 'v py_record list" where
  "normalize df0 =
     (let df = convert_dtypes (where_notnull_None df0);
          df = select_columns (kept_labels df) df
      in to_dict_records df)"

text \<open>
  Step 7: \<^verbatim>\<open>open(output_filename, "w")\<close> creates the file or empties the one that
  exists, then \<^verbatim>\<open>json.dump\<close> writes into it; the records are returned when it ends.
\<close>

definition save_json :: "'v world \<Rightarrow> string \<Rightarrow> 'v py_record list \<Rightarrow> 'v sys \<Rightarrow> (exn + unit) \<times> 'v sys" where
  "save_json w fname rs s =
     (if raises w Open_file then (Inl (Raised Open_file), s)
      else let s1 = s\<lparr>files := (files s)(fname \<mapsto> [])\<rparr>;
               written = json_dump (write_limit w) rs;
               s2 = s1\<lparr>files := (files s1)(fname \<mapsto> fst written)\<rparr>
           in case snd written of None \<Rightarrow> (Inr (), s2) | Some e \<Rightarrow> (Inl e, s2))"

definition download_and_parse_csv ::
    "'v world \<Rightarrow> driver \<Rightarrow> string \<Rightarrow> string \<Rightarrow> 'v sys \<Rightarrow> (exn + 'v py_record list) \<times> 'v sys" where
  "download_and_parse_csv w drv date_from date_to s =
     (case fetch_table w drv of
        Inl e \<Rightarrow> (Inl e, s)
      | Inr df \<Rightarrow>
          (let reservations_json = normalize df;
               saved = save_json w (output_filename date_from date_to) reservations_json s
           in (case fst saved of
                 Inl e \<Rightarrow> (Inl e, snd saved)
               | Inr u \<Rightarrow> (Inr reservations_json, snd saved))))"

subsection \<open>The workflow (main.py, lines 176-205)\<close>

text \<open>
  The body of the \<^verbatim>\<open>try\<close> block once \<^verbatim>\<open>driver\<close> is bound: the login, the list
  view, the filter with the display forms (index 1) and the download with the canonical
  forms (index 0).
\<close>

definition session_body ::
    "'v world \<Rightarrow> driver \<Rightarrow> string \<times> string \<Rightarrow> string \<times> string \<Rightarrow> 'v sys \<Rightarrow> (exn + unit) \<times> 'v sys" where
  "session_body w drv date_from date_to s =
     (let logged = login w drv s in
      (case fst logged of
        Inl e \<Rightarrow> (Inl e, snd logged)
      | Inr drv1 \<Rightarrow>
          (case and_then (open_reservations w drv1)
                  (\<lambda>drv2. apply_date_filters w drv2 (snd date_from) (snd date_to)) of
             Inl e \<Rightarrow> (Inl e, snd logged)
           | Inr drv3 \<Rightarrow>
               (let got = download_and_parse_csv w drv3 (fst date_from) (fst date_to) (snd logged)
                in (case fst got of
                      Inl e \<Rightarrow> (Inl e, snd got)
                    | Inr rs \<Rightarrow> (Inr (), snd got))))))"

text \<open>
  The \<^verbatim>\<open>try\<close> block with the variable \<^verbatim>\<open>driver\<close>, which starts as \<^verbatim>\<open>None\<close>
  and is bound when \<^verbatim>\<open>initialize_driver()\<close> returns.
\<close>

definition try_block ::
    "'v world \<Rightarrow> string \<times> string \<Rightarrow> string \<times> string \<Rightarrow> 'v sys \<Rightarrow> driver option \<times> (exn + unit) \<times> 'v sys" where
  "try_block w date_from date_to s =
     (let started = initialize_driver w s in
      case fst started of
        Inl e \<Rightarrow> (None, Inl e, snd started)
      | Inr drv \<Rightarrow> (Some drv, session_body w drv date_from date_to (snd started)))"

text \<open>\<^verbatim>\<open>driver.quit()\<close> closes the session of the handle.\<close>

definition quit :: "'v sys \<Rightarrow> 'v sys" where
  "quit s = s\<lparr>open_sessions := open_sessions s - 1\<rparr>"

text \<open>
  How \<^verbatim>\<open>run_scraper\<close> ends: standard input ran out while a date was asked for (the
  \<^verbatim>\<open>EOFError\<close> is raised outside the \<^verbatim>\<open>try\<close> block), the configuration is
  missing, an exception was caught and reported, or the block ran to its end.
\<close>

datatype outcome = Eof | Missing_configuration | Caught exn | Done

definition run_scraper :: "'v world \<Rightarrow> 'v sys \<Rightarrow> outcome \<times> 'v sys" where
  "run_scraper w s =
     (case get_date_input (libc w) (stdin s) of
        None \<Rightarrow> (Eof, s\<lparr>stdin := []\<rparr>)
      | Some (date_from, rest1) \<Rightarrow>
          (case get_date_input (libc w) rest1 of
             None \<Rightarrow> (Eof, s\<lparr>stdin := []\<rparr>)
           | Some (date_to, rest2) \<Rightarrow>
               let s0 = s\<lparr>stdin := rest2\<rparr> in
               if missing_configuration (environ w) then (Missing_configuration, s0)
               else let tried = try_block w date_from date_to s0;
                        result = fst (snd tried);
                        s1 = snd (snd tried);
                        s2 = (case fst tried of None \<Rightarrow> s1 | Some drv \<Rightarrow> quit s1)
                    in ((case result of Inl e \<Rightarrow> Caught e | Inr u \<Rightarrow> Done), s2)))"

subsection \<open>A concrete run\<close>

text \<open>
  An export of two rows and three columns, one of them outside the allow-list, with an
  empty cell in the second row; a world in which every call returns and the application
  answers a filter with a location that names the range; a user who types a line that is
  no date, then the two dates, the first one after a space.
\<close>

definition example_table :: "string dataframe" where
  "example_table =
     [\<lparr>label = ''Status'', dtype = Object Strings, cells = [Val ''confirmed'', Val ''cancelled'']\<rparr>,
      \<lparr>label = ''Guest first name'', dtype = Object Strings, cells = [Val ''Ann'', NaN]\<rparr>,
      \<lparr>label = ''Extra1'', dtype = Float64, cells = [NaN, Val ''2.5'']\<rparr>]"

definition example_world :: "string world" where
  "example_world =
     \<lparr>environ = [''USER_EMAIL'' \<mapsto> ''desk@example.org'', ''USER_PASS'' \<mapsto> ''secret''],
      libc = Unpadded,
      raises = (\<lambda>x. False),
      dashboard_url = ''https://app.littlehotelier.com/dashboard'',
      list_url = ''https://app.littlehotelier.com/reservations'',
      submit_filter = (\<lambda>old f t. [old, ''https://app.littlehotelier.com/reservations?from='' @ f @ ''&to='' @ t]),
      export_href = Some ''/reservations.csv'',
      urljoin = (\<lambda>base href. case href of None \<Rightarrow> base | Some h \<Rightarrow> ''https://app.littlehotelier.com'' @ h),
      browser_cookies = [(''session'', ''abc'')],
      http_get = (\<lambda>url jar. (200, ''Status,Guest first name,Extra1'')),
      read_csv = (\<lambda>text. Some example_table),
      write_limit = None\<rparr>"

definition example_sys :: "string sys" where
  "example_sys = \<lparr>stdin = [''tomorrow'', '' 01-01-2025'', ''31-01-2025''], files = Map.empty,
     open_sessions = 0, navigations = []\<rparr>"

definition example_driver :: driver where
  "example_driver = \<lparr>current_url = ''https://app.littlehotelier.com/reservations'',
     from_field = [], to_field = []\<rparr>"

text \<open>
  Variations of the world: \<^verbatim>\<open>maximize_window()\<close> raises; the file accepts three
  pieces and then a write raises; the server answers the download with status 300 and
  the same body, or with status 404; the parser raises.
\<close>

definition maximize_fails_world :: "string world" where
  "maximize_fails_world = example_world\<lparr>raises := (\<lambda>x. x = Maximize)\<rparr>"

definition disk_full_world :: "string world" where
  "disk_full_world = example_world\<lparr>write_limit := Some 3\<rparr>"

definition status_300_world :: "string world" where
  "status_300_world = example_world\<lparr>http_get := (\<lambda>url jar. (300, ''Status,Guest first name,Extra1''))\<rparr>"

definition status_404_world :: "string world" where
  "status_404_world = example_world\<lparr>http_get := (\<lambda>url jar. (404, ''Not Found''))\<rparr>"

definition unparsable_world :: "string world" where
  "unparsable_world = example_world\<lparr>read_csv := (\<lambda>text. None)\<rparr>"

subsection \<open>Notions the properties are stated with\<close>

text \<open>The complete document of a record list: every piece the encoder yields.\<close>

definition document :: "'v py_record list \<Rightarrow> 'v token list" where
  "document rs = map the (iterencode rs)"

text \<open>
  A well-formed table, as \<^verbatim>\<open>read_csv\<close> returns it: at least one column, labels that
  differ (it renames a repeated header), and as many cells in every column as the table
  has rows.
\<close>

definition n_rows :: "'v dataframe \<Rightarrow> nat" where
  "n_rows df = (case df of [] \<Rightarrow> 0 | col # cols \<Rightarrow> length (cells col))"

definition wf_frame :: "'v dataframe \<Rightarrow> bool" where
  "wf_frame df = (df \<noteq> [] \<and> distinct (df_columns df)
     \<and> list_all (\<lambda>col. length (cells col) = n_rows df) df)"

text \<open>Row \<open>i\<close> of a table: the cell of each column, by label.\<close>

definition table_row :: "'v dataframe \<Rightarrow> nat \<Rightarrow> (string \<times> 'v cell) list" where
  "table_row df i = map (\<lambda>col. (label col, cells col ! i)) df"

text \<open>A present value as it is, a missing one as \<^verbatim>\<open>None\<close>.\<close>

fun as_output :: "'v cell \<Rightarrow> 'v cell" where
  "as_output (Val v) = Val v"
| "as_output c = PyNone"

text \<open>The tokens of one record and of one field in the complete document.\<close>

definition field_document :: "string \<times> 'v cell \<Rightarrow> 'v token list" where
  "field_document kv = map the (field_events kv)"

definition record_document :: "'v py_record \<Rightarrow> 'v token list" where
  "record_document r = map the (record_events r)"

text \<open>The column with a label, and what the two pandas steps before the projection make
  of one column.\<close>

definition column_of :: "'v dataframe \<Rightarrow> string \<Rightarrow> 'v column" where
  "column_of df l = the (find (\<lambda>col. label col = l) df)"

definition prepare :: "'v column \<Rightarrow> 'v column" where
  "prepare col = convert_column
     (col\<lparr>cells := map (\<lambda>c. if notnull c then c else fill_value (dtype col) c) (cells col)\<rparr>)"









section \<open>Properties\<close>

subsection \<open>Configuration\<close>

lemma missing_configuration_iff:
  "missing_configuration e = (\<not> truthy (USER_EMAIL e) \<or> \<not> truthy (USER_PASS e))"
  by (cases "getenv e ''WEBSITE_URL''")
     (auto simp: missing_configuration_def WEBSITE_URL_def py_or_def DEFAULT_URL_def)

lemma WEBSITE_URL_absent: "getenv e ''WEBSITE_URL'' = None \<Longrightarrow> WEBSITE_URL e = DEFAULT_URL"
  by (simp add: WEBSITE_URL_def py_or_def)

subsection \<open>What a run leaves unchanged\<close>

lemma save_json_frame:
  "open_sessions (snd (save_json w f rs s)) = open_sessions s"
  "navigations (snd (save_json w f rs s)) = navigations s"
  "stdin (snd (save_json w f rs s)) = stdin s"
  by (simp_all add: save_json_def Let_def split: option.splits)

lemma download_frame:
  "open_sessions (snd (download_and_parse_csv w drv a b s)) = open_sessions s"
  "navigations (snd (download_and_parse_csv w drv a b s)) = navigations s"
  "stdin (snd (download_and_parse_csv w drv a b s)) = stdin s"
  by (simp_all add: download_and_parse_csv_def Let_def save_json_frame split: sum.splits)

lemma login_state: "snd (login w drv s) = s\<lparr>navigations := navigations s @ [WEBSITE_URL (environ w)]\<rparr>"
  by (simp add: login_def Let_def)

lemma session_body_frame:
  "open_sessions (snd (session_body w drv a b s)) = open_sessions s"
  "navigations (snd (session_body w drv a b s)) = navigations s @ [WEBSITE_URL (environ w)]"
  "stdin (snd (session_body w drv a b s)) = stdin s"
  by (simp_all add: session_body_def Let_def login_state download_frame split: sum.splits)

lemma initialize_driver_cases:
  "initialize_driver w s =
     (if raises w Chrome then (Inl (Raised Chrome), s)
      else if raises w Maximize then (Inl (Raised Maximize), s\<lparr>open_sessions := Suc (open_sessions s)\<rparr>)
      else (Inr \<lparr>current_url = ''data:,'', from_field = [], to_field = []\<rparr>, s\<lparr>open_sessions := Suc (open_sessions s)\<rparr>))"
  by (simp add: initialize_driver_def Let_def)

lemma run_scraper_configured:
  assumes "get_date_input (libc w) (stdin s) = Some (d1, r1)"
    and "get_date_input (libc w) r1 = Some (d2, r2)"
    and "\<not> missing_configuration (environ w)"
  shows "run_scraper w s =
     (let tried = try_block w d1 d2 (s\<lparr>stdin := r2\<rparr>)
      in ((case fst (snd tried) of Inl e \<Rightarrow> Caught e | Inr u \<Rightarrow> Done),
          (case fst tried of None \<Rightarrow> snd (snd tried) | Some drv \<Rightarrow> quit (snd (snd tried)))))"
  using assms by (simp add: run_scraper_def Let_def)

lemma run_scraper_not_missing:
  "\<not> missing_configuration (environ w) \<Longrightarrow> fst (run_scraper w s) \<noteq> Missing_configuration"
  by (simp add: run_scraper_def Let_def split: option.splits sum.splits prod.splits)

lemma run_scraper_navigations:
  assumes "get_date_input (libc w) (stdin s) = Some (d1, r1)"
    and "get_date_input (libc w) r1 = Some (d2, r2)"
    and "\<not> missing_configuration (environ w)"
    and "\<not> raises w Chrome" "\<not> raises w Maximize"
  shows "navigations (snd (run_scraper w s)) = navigations s @ [WEBSITE_URL (environ w)]"
  using assms
  by (simp add: run_scraper_configured try_block_def initialize_driver_cases Let_def
      session_body_frame quit_def)

subsection \<open>What the download writes and returns\<close>

lemma save_json_files:
  "files (snd (save_json w f rs s)) =
     (if raises w Open_file then files s
      else (files s)(f \<mapsto> fst (json_dump (write_limit w) rs)))"
  by (simp add: save_json_def Let_def split: option.splits)

lemma save_json_result:
  "fst (save_json w f rs s) =
     (if raises w Open_file then Inl (Raised Open_file)
      else case snd (json_dump (write_limit w) rs) of None \<Rightarrow> Inr () | Some e \<Rightarrow> Inl e)"
  by (simp add: save_json_def Let_def split: option.splits)

lemma download_fetch_failed:
  "fetch_table w drv = Inl e \<Longrightarrow> download_and_parse_csv w drv a b s = (Inl e, s)"
  by (simp add: download_and_parse_csv_def)

lemma download_files:
  "fetch_table w drv = Inr df \<Longrightarrow>
   files (snd (download_and_parse_csv w drv a b s)) =
     (if raises w Open_file then files s
      else (files s)(output_filename a b \<mapsto> fst (json_dump (write_limit w) (normalize df))))"
  by (simp add: download_and_parse_csv_def Let_def save_json_files split: sum.splits)

lemma download_result:
  "fetch_table w drv = Inr df \<Longrightarrow>
   fst (download_and_parse_csv w drv a b s) =
     (if raises w Open_file then Inl (Raised Open_file)
      else case snd (json_dump (write_limit w) (normalize df)) of
             None \<Rightarrow> Inr (normalize df) | Some e \<Rightarrow> Inl e)"
  by (simp add: download_and_parse_csv_def Let_def save_json_result split: sum.splits option.splits)

lemma download_returns:
  assumes "download_and_parse_csv w drv a b s = (Inr rs, s')"
  shows "\<exists>df. fetch_table w drv = Inr df \<and> rs = normalize df
           \<and> snd (json_dump (write_limit w) rs) = None
           \<and> files s' = (files s)(output_filename a b \<mapsto> fst (json_dump (write_limit w) rs))"
proof (cases "fetch_table w drv")
  case (Inl e)
  with assms show ?thesis by (simp add: download_fetch_failed)
next
  case (Inr df)
  from assms have r: "fst (download_and_parse_csv w drv a b s) = Inr rs"
    and f: "files (snd (download_and_parse_csv w drv a b s)) = files s'" by simp_all
  from r Inr have "\<not> raises w Open_file \<and> snd (json_dump (write_limit w) (normalize df)) = None \<and> rs = normalize df"
    by (auto simp: download_result split: if_splits option.splits)
  with f Inr show ?thesis by (auto simp: download_files)
qed

lemma session_body_done:
  assumes "fst (session_body w drv d1 d2 s) = Inr u"
  shows "\<exists>drv3 rs. fst (download_and_parse_csv w drv3 (fst d1) (fst d2)
            (s\<lparr>navigations := navigations s @ [WEBSITE_URL (environ w)]\<rparr>)) = Inr rs
        \<and> snd (session_body w drv d1 d2 s) = snd (download_and_parse_csv w drv3 (fst d1) (fst d2)
            (s\<lparr>navigations := navigations s @ [WEBSITE_URL (environ w)]\<rparr>))"
  using assms
  by (auto simp: session_body_def Let_def login_state split: sum.splits)

lemma date_attempt_accepts:
  "snd (date_attempt st line) = Inr r \<Longrightarrow> fst r = strip line \<and> date_pattern_match (fst r)"
  by (auto simp: date_attempt_def Let_def split: if_splits option.splits)

lemma get_date_input_canonical:
  "get_date_input st ls = Some (r, rest) \<Longrightarrow>
     date_pattern_match (fst r) \<and> (\<exists>line \<in> set ls. fst r = strip line)"
proof (induction ls)
  case Nil
  then show ?case by simp
next
  case (Cons line ls)
  show ?case
  proof (cases "snd (date_attempt st line)")
    case (Inl e)
    with Cons show ?thesis by simp
  next
    case (Inr r')
    with Cons.prems have "r' = r" by simp
    with Inr show ?thesis using date_attempt_accepts [of st line r] by auto
  qed
qed

lemma try_block_files:
  assumes "fst (snd (try_block w d1 d2 s)) = Inr u"
  shows "\<exists>drv rs. fst (try_block w d1 d2 s) = Some drv
      \<and> (\<exists>drv3 s1. files s1 = files s
           \<and> fst (download_and_parse_csv w drv3 (fst d1) (fst d2) s1) = Inr rs
           \<and> snd (snd (try_block w d1 d2 s)) = snd (download_and_parse_csv w drv3 (fst d1) (fst d2) s1))"
proof -
  from assms have ok: "\<not> raises w Chrome" "\<not> raises w Maximize"
    by (auto simp: try_block_def initialize_driver_cases Let_def split: if_splits)
  let ?drv = "\<lparr>current_url = ''data:,'', from_field = [], to_field = []\<rparr>"
  let ?s = "s\<lparr>open_sessions := Suc (open_sessions s)\<rparr>"
  from ok have tb: "try_block w d1 d2 s = (Some ?drv, session_body w ?drv d1 d2 ?s)"
    by (simp add: try_block_def initialize_driver_cases Let_def)
  with assms have "fst (session_body w ?drv d1 d2 ?s) = Inr u" by simp
  from session_body_done [OF this] obtain drv3 rs where
    "fst (download_and_parse_csv w drv3 (fst d1) (fst d2)
        (?s\<lparr>navigations := navigations ?s @ [WEBSITE_URL (environ w)]\<rparr>)) = Inr rs"
    "snd (session_body w ?drv d1 d2 ?s) = snd (download_and_parse_csv w drv3 (fst d1) (fst d2)
        (?s\<lparr>navigations := navigations ?s @ [WEBSITE_URL (environ w)]\<rparr>))"
    by blast
  with tb show ?thesis
    by (intro exI [of _ ?drv] exI [of _ rs] conjI exI [of _ drv3]
          exI [of _ "?s\<lparr>navigations := navigations ?s @ [WEBSITE_URL (environ w)]\<rparr>"]) simp_all
qed

lemma download_done_files:
  assumes "fst (download_and_parse_csv w drv a b s) = Inr rs"
  shows "files (snd (download_and_parse_csv w drv a b s))
           = (files s)(output_filename a b \<mapsto> fst (json_dump (write_limit w) rs))
         \<and> snd (json_dump (write_limit w) rs) = None"
  using download_returns [of w drv a b s rs "snd (download_and_parse_csv w drv a b s)"] assms
  by (metis prod.collapse)

lemma run_scraper_done:
  assumes "fst (run_scraper w s) = Done"
  shows "\<exists>d1 r1 d2 r2 rs.
           get_date_input (libc w) (stdin s) = Some (d1, r1)
         \<and> get_date_input (libc w) r1 = Some (d2, r2)
         \<and> snd (json_dump (write_limit w) rs) = None
         \<and> files (snd (run_scraper w s))
             = (files s)(output_filename (fst d1) (fst d2) \<mapsto> fst (json_dump (write_limit w) rs))"
proof -
  from assms obtain d1 r1 where g1: "get_date_input (libc w) (stdin s) = Some (d1, r1)"
    by (cases "get_date_input (libc w) (stdin s)") (auto simp: run_scraper_def)
  with assms obtain d2 r2 where g2: "get_date_input (libc w) r1 = Some (d2, r2)"
    by (cases "get_date_input (libc w) r1") (auto simp: run_scraper_def)
  from assms g1 g2 have nm: "\<not> missing_configuration (environ w)"
    by (auto simp: run_scraper_def Let_def split: if_splits)
  let ?s0 = "s\<lparr>stdin := r2\<rparr>"
  let ?t = "try_block w d1 d2 ?s0"
  from assms have "\<exists>u. fst (snd ?t) = Inr u"
    by (simp add: run_scraper_configured [OF g1 g2 nm] Let_def split: sum.splits)
  then obtain u where "fst (snd ?t) = Inr u" ..
  from try_block_files [OF this] obtain drv rs drv3 s1 where
    t: "fst ?t = Some drv" "files s1 = files ?s0"
       "fst (download_and_parse_csv w drv3 (fst d1) (fst d2) s1) = Inr rs"
       "snd (snd ?t) = snd (download_and_parse_csv w drv3 (fst d1) (fst d2) s1)"
    by blast
  from download_done_files [OF t(3)] t(2,4)
  have "files (snd (snd ?t)) = (files s)(output_filename (fst d1) (fst d2) \<mapsto> fst (json_dump (write_limit w) rs))"
    and d: "snd (json_dump (write_limit w) rs) = None" by simp_all
  with t(1) have "files (snd (run_scraper w s))
      = (files s)(output_filename (fst d1) (fst d2) \<mapsto> fst (json_dump (write_limit w) rs))"
    by (simp add: run_scraper_configured [OF g1 g2 nm] Let_def quit_def)
  with g1 g2 d show ?thesis by blast
qed

subsection \<open>What json.dump leaves in the file\<close>

lemma takeWhile_prefix: "takeWhile P xs = take (length (takeWhile P xs)) xs"
  by (induction xs) auto

lemma take_of_prefix: "t = take k d \<Longrightarrow> n \<le> k \<Longrightarrow> take n t = take n d"
  by (simp add: min_def)

lemma json_dump_complete:
  assumes "json_dump limit rs = (toks, None)"
  shows "toks = document rs"
proof -
  let ?evs = "iterencode rs"
  let ?t = "map the (takeWhile (\<lambda>e. e \<noteq> None) ?evs)"
  from assms have len: "length ?t = length ?evs" and t: "toks = ?t"
    by (simp_all add: json_dump_def Let_def del: not_None_eq split: option.splits if_splits)
  from len have "length (takeWhile (\<lambda>e. e \<noteq> None) ?evs) = length ?evs"
    by (simp del: not_None_eq)
  then have "takeWhile (\<lambda>e. e \<noteq> None) ?evs = ?evs"
    using takeWhile_prefix [of "\<lambda>e. e \<noteq> None" ?evs] by (simp del: not_None_eq)
  with t show ?thesis by (simp add: document_def del: not_None_eq)
qed

lemma json_dump_failed:
  assumes "json_dump limit rs = (toks, Some e)"
  shows "toks = take (length toks) (document rs) \<and> length toks < length (document rs)"
proof -
  let ?evs = "iterencode rs"
  let ?w = "takeWhile (\<lambda>e. e \<noteq> None) ?evs"
  let ?t = "map the ?w"
  have pre: "?t = take (length ?t) (document rs)"
    unfolding document_def
    by (metis takeWhile_prefix take_map length_map)
  have le: "length ?t \<le> length (document rs)"
    by (simp add: document_def length_takeWhile_le del: not_None_eq)
  from assms consider
      (type_error) "toks = ?t" "length ?t \<noteq> length ?evs"
    | (write_error) n where "limit = Some n" "n < length ?t" "toks = take n ?t"
    by (auto simp: json_dump_def Let_def simp del: not_None_eq split: option.splits if_splits)
  then show ?thesis
  proof cases
    case type_error
    with pre le show ?thesis by (simp add: document_def del: not_None_eq)
  next
    case write_error
    from write_error(2) le have n: "n < length (document rs)" by simp
    from write_error(2) have "n \<le> length ?t" by simp
    from take_of_prefix [OF pre this] have "take n ?t = take n (document rs)" .
    with write_error(3) n show ?thesis by (simp del: not_None_eq)
  qed
qed

lemma fetch_table_status:
  assumes "\<not> raises w Wait_export" "\<not> raises w Get_href" "\<not> raises w Get_cookies"
    "\<not> raises w Http_get"
  shows "fetch_table w drv =
     (let response = http_get w (urljoin w (current_url drv) (export_href w))
                       (cookie_jar (browser_cookies w))
      in if 400 \<le> fst response \<and> fst response < 600 then Inl (HTTPError (fst response))
         else case read_csv w (snd response) of None \<Rightarrow> Inl ParserError | Some df \<Rightarrow> Inr df)"
  using assms
  by (simp add: fetch_table_def call_def and_then_def raise_for_status_def Let_def)

subsection \<open>The concrete run, evaluated\<close>

lemma example_dates:
  "get_date_input Unpadded [''tomorrow'', '' 01-01-2025'', ''31-01-2025'']
     = Some ((''01-01-2025'', ''01 JAN 2025''), [''31-01-2025''])"
  "get_date_input Unpadded [''31-01-2025''] = Some ((''31-01-2025'', ''31 JAN 2025''), [])"
  by code_simp+

lemma example_world_simps:
  "environ example_world = [''USER_EMAIL'' \<mapsto> ''desk@example.org'', ''USER_PASS'' \<mapsto> ''secret'']"
  "libc example_world = Unpadded"
  "raises example_world x = False"
  "write_limit example_world = None"
  "read_csv example_world t = Some example_table"
  "stdin example_sys = [''tomorrow'', '' 01-01-2025'', ''31-01-2025'']"
  "navigations example_sys = []"
  "open_sessions example_sys = 0"
  "files example_sys = Map.empty"
  by (simp_all add: example_world_def example_sys_def)

lemma example_config:
  "getenv (environ example_world) ''WEBSITE_URL'' = None"
  "truthy (USER_EMAIL (environ example_world))"
  "truthy (USER_PASS (environ example_world))"
  by (simp_all add: example_world_simps getenv_def USER_EMAIL_def USER_PASS_def)

lemma example_world_more:
  "export_href example_world = Some ''/reservations.csv''"
  "browser_cookies example_world = [(''session'', ''abc'')]"
  "http_get example_world u j = (200, ''Status,Guest first name,Extra1'')"
  "dashboard_url example_world = ''https://app.littlehotelier.com/dashboard''"
  "list_url example_world = ''https://app.littlehotelier.com/reservations''"
  "submit_filter example_world old f t = [old, ''https://app.littlehotelier.com/reservations?from='' @ f @ ''&to='' @ t]"
  by (simp_all add: example_world_def)

lemma example_normalize:
  "normalize example_table =
     [[(''Status'', Val ''confirmed''), (''Guest first name'', Val ''Ann'')],
      [(''Status'', Val ''cancelled''), (''Guest first name'', PyNone)]]"
  by code_simp

lemma example_document:
  "json_dump None (normalize example_table) =
     ([LBracket, LBrace, TKey ''Status'', Colon, TScalar ''confirmed'', Comma,
         TKey ''Guest first name'', Colon, TScalar ''Ann'', RBrace, Comma,
       LBrace, TKey ''Status'', Colon, TScalar ''cancelled'', Comma,
         TKey ''Guest first name'', Colon, TNull, RBrace, RBracket], None)"
  unfolding example_normalize by code_simp

lemma example_fetch: "fetch_table example_world drv = Inr example_table"
  by (simp add: fetch_table_def call_def and_then_def example_world_simps example_world_more
      raise_for_status_def Let_def)

lemma example_filter:
  "apply_date_filters example_world
      \<lparr>current_url = ''https://app.littlehotelier.com/reservations'', from_field = a, to_field = b\<rparr>
      ''01 JAN 2025'' ''31 JAN 2025''
   = Inr \<lparr>current_url = ''https://app.littlehotelier.com/reservations?from=01 JAN 2025&to=31 JAN 2025'',
          from_field = ''01 JAN 2025'', to_field = ''31 JAN 2025''\<rparr>"
  by (simp add: apply_date_filters_def call_def and_then_def example_world_simps example_world_more
      wait_url_change_def Let_def)

lemma example_download:
  "download_and_parse_csv example_world drv ''01-01-2025'' ''31-01-2025'' s =
     (Inr (normalize example_table),
      s\<lparr>files := (files s)(''reservations_01-01-2025_to_31-01-2025.json'' \<mapsto>
       [LBracket, LBrace, TKey ''Status'', Colon, TScalar ''confirmed'', Comma,
         TKey ''Guest first name'', Colon, TScalar ''Ann'', RBrace, Comma,
       LBrace, TKey ''Status'', Colon, TScalar ''cancelled'', Comma,
         TKey ''Guest first name'', Colon, TNull, RBrace, RBracket])\<rparr>)"
  by (simp add: download_and_parse_csv_def example_fetch save_json_def example_world_simps
      example_document output_filename_def Let_def)

lemma example_session_body:
  "session_body example_world \<lparr>current_url = u, from_field = a, to_field = b\<rparr>
      (''01-01-2025'', ''01 JAN 2025'') (''31-01-2025'', ''31 JAN 2025'') s =
     (Inr (), s\<lparr>navigations := navigations s @ [DEFAULT_URL],
       files := (files s)(''reservations_01-01-2025_to_31-01-2025.json'' \<mapsto>
       [LBracket, LBrace, TKey ''Status'', Colon, TScalar ''confirmed'', Comma,
         TKey ''Guest first name'', Colon, TScalar ''Ann'', RBrace, Comma,
       LBrace, TKey ''Status'', Colon, TScalar ''cancelled'', Comma,
         TKey ''Guest first name'', Colon, TNull, RBrace, RBracket])\<rparr>)"
  using example_config(1)
  by (simp add: session_body_def login_def open_reservations_def call_def and_then_def Let_def
      example_world_more example_filter example_download WEBSITE_URL_absent
      example_world_simps(2-))

lemma example_run:
  "run_scraper example_world example_sys =
     (Done, \<lparr>stdin = [], files = [''reservations_01-01-2025_to_31-01-2025.json'' \<mapsto>
       [LBracket, LBrace, TKey ''Status'', Colon, TScalar ''confirmed'', Comma,
         TKey ''Guest first name'', Colon, TScalar ''Ann'', RBrace, Comma,
       LBrace, TKey ''Status'', Colon, TScalar ''cancelled'', Comma,
         TKey ''Guest first name'', Colon, TNull, RBrace, RBracket]],
       open_sessions = 0, navigations = [DEFAULT_URL]\<rparr>)"
proof -
  have nm: "\<not> missing_configuration (environ example_world)"
    using example_config by (simp add: missing_configuration_iff)
  have g1: "get_date_input (libc example_world) (stdin example_sys)
      = Some ((''01-01-2025'', ''01 JAN 2025''), [''31-01-2025''])"
    and g2: "get_date_input (libc example_world) [''31-01-2025'']
      = Some ((''31-01-2025'', ''31 JAN 2025''), [])"
    by (simp_all only: example_world_simps example_dates)
  show ?thesis
    unfolding run_scraper_configured [OF g1 g2 nm]
    by (simp add: try_block_def initialize_driver_cases example_world_simps(2-) Let_def
        example_session_body quit_def example_sys_def)
qed

lemma example_driver_url: "current_url example_driver = ''https://app.littlehotelier.com/reservations''"
  by (simp add: example_driver_def)

lemma variant_fetch:
  "fetch_table disk_full_world drv = Inr example_table"
  "fetch_table status_300_world drv = Inr example_table"
  "fetch_table status_404_world drv = Inl (HTTPError 404)"
  "fetch_table unparsable_world drv = Inl ParserError"
  by (simp_all add: fetch_table_def call_def and_then_def raise_for_status_def Let_def
      disk_full_world_def status_300_world_def status_404_world_def unparsable_world_def
      example_world_def)

lemma disk_full_dump:
  "json_dump (Some 3) (normalize example_table) = ([LBracket, LBrace, TKey ''Status''], Some WriteError)"
  unfolding example_normalize by code_simp

lemma variant_fields:
  "write_limit disk_full_world = Some 3"
  "raises disk_full_world x = False"
  "write_limit status_300_world = None"
  "raises status_300_world x = False"
  "raises status_404_world x = False"
  "raises unparsable_world x = False"
  "http_get status_404_world u j = (404, ''Not Found'')"
  "http_get unparsable_world u j = (200, ''Status,Guest first name,Extra1'')"
  "read_csv unparsable_world t = None"
  by (simp_all add: disk_full_world_def status_300_world_def status_404_world_def
      unparsable_world_def example_world_def)

lemma example_complete_dump:
  "json_dump None (normalize example_table) = (document (normalize example_table), None)"
proof -
  have "snd (json_dump None (normalize example_table)) = None"
    by (simp add: example_document)
  then show ?thesis
    using json_dump_complete [of None "normalize example_table" "fst (json_dump None (normalize example_table))"]
    by (metis prod.collapse)
qed

subsection \<open>The missing-configuration check\<close>

text \<open>
  C10. The missing-configuration check fires exactly when the login identity or the
  login secret is absent or empty. When the target URL is not set and both credentials
  are, the URL is the built-in default, the run does not take the missing-configuration
  exit, and a browser that starts is sent to the default URL.
\<close>

theorem missing_configuration_only_for_credentials:
  fixes w :: "'v world" and s :: "'v sys"
  shows "(missing_configuration (environ w) \<longleftrightarrow>
            \<not> truthy (USER_EMAIL (environ w)) \<or> \<not> truthy (USER_PASS (environ w)))
       \<and> (getenv (environ w) ''WEBSITE_URL'' = None
            \<and> truthy (USER_EMAIL (environ w)) \<and> truthy (USER_PASS (environ w)) \<longrightarrow>
          WEBSITE_URL (environ w) = DEFAULT_URL
          \<and> fst (run_scraper w s) \<noteq> Missing_configuration
          \<and> (\<forall>d1 r1 d2 r2.
                get_date_input (libc w) (stdin s) = Some (d1, r1)
                \<and> get_date_input (libc w) r1 = Some (d2, r2)
                \<and> \<not> raises w Chrome \<and> \<not> raises w Maximize \<longrightarrow>
                navigations (snd (run_scraper w s)) = navigations s @ [DEFAULT_URL]))"
proof (intro conjI impI allI)
  show "missing_configuration (environ w) \<longleftrightarrow>
      \<not> truthy (USER_EMAIL (environ w)) \<or> \<not> truthy (USER_PASS (environ w))"
    by (rule missing_configuration_iff)
next
  assume a: "getenv (environ w) ''WEBSITE_URL'' = None
      \<and> truthy (USER_EMAIL (environ w)) \<and> truthy (USER_PASS (environ w))"
  then have nm: "\<not> missing_configuration (environ w)"
    by (simp add: missing_configuration_iff)
  from a show url: "WEBSITE_URL (environ w) = DEFAULT_URL"
    by (simp add: WEBSITE_URL_absent)
  from nm show "fst (run_scraper w s) \<noteq> Missing_configuration"
    by (rule run_scraper_not_missing)
  fix d1 r1 d2 r2
  assume "get_date_input (libc w) (stdin s) = Some (d1, r1)
      \<and> get_date_input (libc w) r1 = Some (d2, r2)
      \<and> \<not> raises w Chrome \<and> \<not> raises w Maximize"
  with nm url show "navigations (snd (run_scraper w s)) = navigations s @ [DEFAULT_URL]"
    using run_scraper_navigations [of w s d1 r1 d2 r2] by simp
qed

theorem missing_configuration_only_for_credentials_witness:
  "getenv (environ example_world) ''WEBSITE_URL'' = None
   \<and> \<not> missing_configuration (environ example_world)
   \<and> WEBSITE_URL (environ example_world) = DEFAULT_URL
   \<and> fst (run_scraper example_world example_sys) \<noteq> Missing_configuration
   \<and> navigations (snd (run_scraper example_world example_sys)) = [DEFAULT_URL]"
  using missing_configuration_only_for_credentials [of example_world example_sys]
    example_config example_dates
  by (simp add: example_world_simps)

subsection \<open>The output file of a run\<close>

text \<open>
  C9. A run that completes has read two dates; it leaves the files as they were but for
  one, whose name is \<^verbatim>\<open>reservations_\<close>, the canonical start date,
  \<^verbatim>\<open>_to_\<close>, the canonical end date and \<^verbatim>\<open>.json\<close>. Both canonical forms match
  the date pattern, and the name is a function of the two of them alone.
\<close>

theorem one_output_file_named_by_canonical_dates:
  assumes "fst (run_scraper w s) = Done"
  shows "\<exists>date_from rest1 date_to rest2 toks.
           get_date_input (libc w) (stdin s) = Some (date_from, rest1)
         \<and> get_date_input (libc w) rest1 = Some (date_to, rest2)
         \<and> date_pattern_match (fst date_from) \<and> date_pattern_match (fst date_to)
         \<and> files (snd (run_scraper w s))
             = (files s)(''reservations_'' @ fst date_from @ ''_to_'' @ fst date_to @ ''.json'' \<mapsto> toks)
         \<and> output_filename (fst date_from) (fst date_to)
             = ''reservations_'' @ fst date_from @ ''_to_'' @ fst date_to @ ''.json''"
proof -
  from run_scraper_done [OF assms] obtain d1 r1 d2 r2 rs where
    g: "get_date_input (libc w) (stdin s) = Some (d1, r1)"
       "get_date_input (libc w) r1 = Some (d2, r2)"
    and f: "files (snd (run_scraper w s))
             = (files s)(output_filename (fst d1) (fst d2) \<mapsto> fst (json_dump (write_limit w) rs))"
    by blast
  from g have "date_pattern_match (fst d1)" "date_pattern_match (fst d2)"
    using get_date_input_canonical by blast+
  with g f show ?thesis
    unfolding output_filename_def by blast
qed

theorem one_output_file_named_by_canonical_dates_witness:
  "fst (run_scraper example_world example_sys) = Done
   \<and> (\<exists>toks. files (snd (run_scraper example_world example_sys))
         = (files example_sys)(''reservations_01-01-2025_to_31-01-2025.json'' \<mapsto> toks))"
proof -
  have completes: "fst (run_scraper example_world example_sys) = Done"
    by (simp add: example_run)
  from one_output_file_named_by_canonical_dates [OF completes]
  obtain date_from rest1 date_to rest2 toks where
    g1: "get_date_input (libc example_world) (stdin example_sys) = Some (date_from, rest1)"
    and g2: "get_date_input (libc example_world) rest1 = Some (date_to, rest2)"
    and f: "files (snd (run_scraper example_world example_sys))
      = (files example_sys)(''reservations_'' @ fst date_from @ ''_to_'' @ fst date_to @ ''.json'' \<mapsto> toks)"
    by blast
  from g1 have d1: "date_from = (''01-01-2025'', ''01 JAN 2025'')" and r1: "rest1 = [''31-01-2025'']"
    by (simp_all only: example_world_simps example_dates option.inject prod.inject)
  from g2 have "date_to = (''31-01-2025'', ''31 JAN 2025'')"
    unfolding r1 by (simp only: example_world_simps example_dates option.inject prod.inject)
  with d1 f completes show ?thesis by auto
qed

subsection \<open>When the output file comes to exist\<close>

text \<open>
  C7, as the program has it. When a step before the parser's result fails, the stage
  fails and leaves the state as it was: so for a status from 400 to 599 and for a parser
  that raises. The file is opened once the records exist and before \<^verbatim>\<open>json.dump\<close>
  runs: when the dump fails the file is there and holds a proper prefix of the document;
  when the stage returns the records, the file holds their complete document.
\<close>

theorem file_written_only_after_records:
  fixes w :: "'v world"
  shows "(fetch_table w drv = Inl e \<longrightarrow> download_and_parse_csv w drv a b s = (Inl e, s))
    \<and> (\<not> raises w Wait_export \<and> \<not> raises w Get_href \<and> \<not> raises w Get_cookies
        \<and> \<not> raises w Http_get
        \<and> http_get w (urljoin w (current_url drv) (export_href w)) (cookie_jar (browser_cookies w))
            = (status, body) \<longrightarrow>
         (400 \<le> status \<and> status < 600 \<longrightarrow>
            download_and_parse_csv w drv a b s = (Inl (HTTPError status), s))
       \<and> (\<not> (400 \<le> status \<and> status < 600) \<and> read_csv w body = None \<longrightarrow>
            download_and_parse_csv w drv a b s = (Inl ParserError, s)))
    \<and> (fetch_table w drv = Inr df \<and> \<not> raises w Open_file
        \<and> json_dump (write_limit w) (normalize df) = (toks, Some e) \<longrightarrow>
         fst (download_and_parse_csv w drv a b s) = Inl e
       \<and> files (snd (download_and_parse_csv w drv a b s)) = (files s)(output_filename a b \<mapsto> toks)
       \<and> toks = take (length toks) (document (normalize df))
       \<and> length toks < length (document (normalize df)))
    \<and> (download_and_parse_csv w drv a b s = (Inr rs, s') \<longrightarrow>
         files s' = (files s)(output_filename a b \<mapsto> document rs))"
proof (intro conjI impI)
  assume "fetch_table w drv = Inl e"
  then show "download_and_parse_csv w drv a b s = (Inl e, s)" by (rule download_fetch_failed)
next
  assume a: "\<not> raises w Wait_export \<and> \<not> raises w Get_href \<and> \<not> raises w Get_cookies
        \<and> \<not> raises w Http_get
        \<and> http_get w (urljoin w (current_url drv) (export_href w)) (cookie_jar (browser_cookies w))
            = (status, body)"
  assume "400 \<le> status \<and> status < 600"
  with a have "fetch_table w drv = Inl (HTTPError status)"
    by (simp add: fetch_table_status Let_def)
  then show "download_and_parse_csv w drv a b s = (Inl (HTTPError status), s)"
    by (rule download_fetch_failed)
next
  assume a: "\<not> raises w Wait_export \<and> \<not> raises w Get_href \<and> \<not> raises w Get_cookies
        \<and> \<not> raises w Http_get
        \<and> http_get w (urljoin w (current_url drv) (export_href w)) (cookie_jar (browser_cookies w))
            = (status, body)"
  assume "\<not> (400 \<le> status \<and> status < 600) \<and> read_csv w body = None"
  with a have "fetch_table w drv = Inl ParserError"
    by (simp add: fetch_table_status Let_def)
  then show "download_and_parse_csv w drv a b s = (Inl ParserError, s)"
    by (rule download_fetch_failed)
next
  assume a: "fetch_table w drv = Inr df \<and> \<not> raises w Open_file
        \<and> json_dump (write_limit w) (normalize df) = (toks, Some e)"
  then show "fst (download_and_parse_csv w drv a b s) = Inl e"
    by (simp add: download_result)
  from a show "files (snd (download_and_parse_csv w drv a b s)) = (files s)(output_filename a b \<mapsto> toks)"
    by (simp add: download_files)
  from a json_dump_failed [of "write_limit w" "normalize df" toks e]
  show "toks = take (length toks) (document (normalize df))"
    and "length toks < length (document (normalize df))" by simp_all
next
  assume a: "download_and_parse_csv w drv a b s = (Inr rs, s')"
  from download_returns [OF a] obtain df where
    d: "snd (json_dump (write_limit w) rs) = None"
    and f: "files s' = (files s)(output_filename a b \<mapsto> fst (json_dump (write_limit w) rs))"
    by auto
  from d have "fst (json_dump (write_limit w) rs) = document rs"
    using json_dump_complete [of "write_limit w" rs "fst (json_dump (write_limit w) rs)"]
    by (metis prod.collapse)
  with f show "files s' = (files s)(output_filename a b \<mapsto> document rs)" by simp
qed

theorem file_exists_after_failed_dump:
  "fst (download_and_parse_csv disk_full_world example_driver ''01-01-2025'' ''31-01-2025'' example_sys)
     = Inl WriteError
   \<and> files example_sys ''reservations_01-01-2025_to_31-01-2025.json'' = None
   \<and> files (snd (download_and_parse_csv disk_full_world example_driver ''01-01-2025'' ''31-01-2025''
        example_sys)) ''reservations_01-01-2025_to_31-01-2025.json''
     = Some [LBracket, LBrace, TKey ''Status'']
   \<and> raise_for_status 300 = Inr ()
   \<and> fst (download_and_parse_csv status_300_world example_driver ''01-01-2025'' ''31-01-2025'' example_sys)
     = Inr (normalize example_table)
   \<and> files (snd (download_and_parse_csv status_300_world example_driver ''01-01-2025'' ''31-01-2025''
        example_sys)) ''reservations_01-01-2025_to_31-01-2025.json''
     = Some (document (normalize example_table))"
  by (simp add: download_result download_files variant_fetch variant_fields disk_full_dump
      example_complete_dump output_filename_def example_world_simps raise_for_status_def)

theorem file_written_only_after_records_witness:
  "download_and_parse_csv status_404_world example_driver ''01-01-2025'' ''31-01-2025'' example_sys
     = (Inl (HTTPError 404), example_sys)
   \<and> download_and_parse_csv unparsable_world example_driver ''01-01-2025'' ''31-01-2025'' example_sys
     = (Inl ParserError, example_sys)
   \<and> fst (download_and_parse_csv disk_full_world example_driver ''01-01-2025'' ''31-01-2025'' example_sys)
     = Inl WriteError
   \<and> files (snd (download_and_parse_csv disk_full_world example_driver ''01-01-2025'' ''31-01-2025''
        example_sys))
     = (files example_sys)(output_filename ''01-01-2025'' ''31-01-2025'' \<mapsto> [LBracket, LBrace, TKey ''Status''])
   \<and> length [LBracket, LBrace, TKey ''Status'' :: string token] < length (document (normalize example_table))
   \<and> files (snd (download_and_parse_csv example_world example_driver ''01-01-2025'' ''31-01-2025''
        example_sys))
     = (files example_sys)(output_filename ''01-01-2025'' ''31-01-2025'' \<mapsto> document (normalize example_table))"
proof -
  have a: "download_and_parse_csv status_404_world example_driver ''01-01-2025'' ''31-01-2025'' example_sys
     = (Inl (HTTPError 404), example_sys)"
    using file_written_only_after_records [of status_404_world example_driver "HTTPError 404"
        "''01-01-2025''" "''31-01-2025''" example_sys 404 "''Not Found''"]
    by (simp add: variant_fields variant_fetch)
  have b: "download_and_parse_csv unparsable_world example_driver ''01-01-2025'' ''31-01-2025'' example_sys
     = (Inl ParserError, example_sys)"
    using file_written_only_after_records [of unparsable_world example_driver ParserError
        "''01-01-2025''" "''31-01-2025''" example_sys 200 "''Status,Guest first name,Extra1''"]
    by (simp add: variant_fields variant_fetch)
  have c: "fst (download_and_parse_csv disk_full_world example_driver ''01-01-2025'' ''31-01-2025'' example_sys)
     = Inl WriteError
   \<and> files (snd (download_and_parse_csv disk_full_world example_driver ''01-01-2025'' ''31-01-2025''
        example_sys))
     = (files example_sys)(output_filename ''01-01-2025'' ''31-01-2025'' \<mapsto> [LBracket, LBrace, TKey ''Status''])
   \<and> length [LBracket, LBrace, TKey ''Status'' :: string token] < length (document (normalize example_table))"
    using file_written_only_after_records [of disk_full_world example_driver WriteError
        "''01-01-2025''" "''31-01-2025''" example_sys _ _ example_table
        "[LBracket, LBrace, TKey ''Status'']"]
    by (simp add: variant_fields variant_fetch disk_full_dump)
  have d: "files (snd (download_and_parse_csv example_world example_driver ''01-01-2025'' ''31-01-2025''
        example_sys))
     = (files example_sys)(output_filename ''01-01-2025'' ''31-01-2025'' \<mapsto> document (normalize example_table))"
    using file_written_only_after_records [of example_world example_driver _
        "''01-01-2025''" "''31-01-2025''" example_sys _ _ _ _ "normalize example_table"
        "snd (download_and_parse_csv example_world example_driver ''01-01-2025'' ''31-01-2025'' example_sys)"]
    by (simp add: example_download)
  from a b c d show ?thesis by simp
qed

subsection \<open>The browser session at the end of a run\<close>

text \<open>
  The \<^verbatim>\<open>finally\<close> block closes the session whenever the variable \<^verbatim>\<open>driver\<close> was
  bound: every run ends with as many open sessions as it began with, unless the browser
  started and \<^verbatim>\<open>maximize_window()\<close> raised. In that case the session is open, the
  variable is still \<^verbatim>\<open>None\<close> and the block skips \<^verbatim>\<open>quit()\<close>.
\<close>

lemma run_scraper_closes_bound_driver:
  assumes "raises w Chrome \<or> \<not> raises w Maximize"
  shows "open_sessions (snd (run_scraper w s)) = open_sessions s"
proof (cases "get_date_input (libc w) (stdin s)")
  case None
  then show ?thesis by (simp add: run_scraper_def)
next
  case (Some p1)
  then obtain d1 r1 where g1: "get_date_input (libc w) (stdin s) = Some (d1, r1)"
    by (cases p1) simp
  show ?thesis
  proof (cases "get_date_input (libc w) r1")
    case None
    with g1 show ?thesis by (simp add: run_scraper_def)
  next
    case (Some p2)
    then obtain d2 r2 where g2: "get_date_input (libc w) r1 = Some (d2, r2)"
      by (cases p2) simp
    show ?thesis
    proof (cases "missing_configuration (environ w)")
      case True
      with g1 g2 show ?thesis by (simp add: run_scraper_def)
    next
      case False
      from assms show ?thesis
        unfolding run_scraper_configured [OF g1 g2 False]
        by (auto simp: try_block_def initialize_driver_cases Let_def session_body_frame quit_def)
    qed
  qed
qed

lemma run_scraper_leaves_session_open:
  assumes "get_date_input (libc w) (stdin s) = Some (d1, r1)"
    and "get_date_input (libc w) r1 = Some (d2, r2)"
    and "\<not> missing_configuration (environ w)"
    and "\<not> raises w Chrome" and "raises w Maximize"
  shows "run_scraper w s = (Caught (Raised Maximize), s\<lparr>stdin := r2, open_sessions := Suc (open_sessions s)\<rparr>)"
  using assms(4,5)
  unfolding run_scraper_configured [OF assms(1-3)]
  by (simp add: try_block_def initialize_driver_cases Let_def)

text \<open>
  C6, at the run where it fails: the browser starts, \<^verbatim>\<open>maximize_window()\<close> raises,
  the exception is caught and reported, and the run ends with the session still open.
\<close>

theorem session_left_open_when_maximize_raises:
  "open_sessions example_sys = 0
   \<and> fst (run_scraper maximize_fails_world example_sys) = Caught (Raised Maximize)
   \<and> open_sessions (snd (run_scraper maximize_fails_world example_sys)) = 1"
proof -
  have f: "libc maximize_fails_world = Unpadded" "environ maximize_fails_world = environ example_world"
    "\<not> raises maximize_fails_world Chrome" "raises maximize_fails_world Maximize"
    by (simp_all add: maximize_fails_world_def example_world_def)
  have nm: "\<not> missing_configuration (environ maximize_fails_world)"
    using example_config by (simp add: f missing_configuration_iff)
  have g1: "get_date_input (libc maximize_fails_world) (stdin example_sys)
      = Some ((''01-01-2025'', ''01 JAN 2025''), [''31-01-2025''])"
    and g2: "get_date_input (libc maximize_fails_world) [''31-01-2025'']
      = Some ((''31-01-2025'', ''31 JAN 2025''), [])"
    by (simp_all only: f example_world_simps example_dates)
  show ?thesis
    unfolding run_scraper_leaves_session_open [OF g1 g2 nm f(3,4)]
    by (simp add: example_world_simps)
qed

subsection \<open>Applying the date filter\<close>








subsection \<open>The records of a table\<close>

lemma filter_distinct_label:
  "distinct (map label df) \<Longrightarrow> l \<in> set (map label df) \<Longrightarrow>
     filter (\<lambda>col. label col = l) df = [column_of df l]"
proof (induction df)
  case Nil
  then show ?case by simp
next
  case (Cons c df)
  show ?case
  proof (cases "label c = l")
    case True
    with Cons.prems have "l \<notin> set (map label df)" by auto
    then have "filter (\<lambda>col. label col = l) df = []"
      by (auto simp: filter_empty_conv)
    with True show ?thesis by (simp add: column_of_def)
  next
    case False
    with Cons show ?thesis by (simp add: column_of_def)
  qed
qed

lemma column_of_in:
  "l \<in> set (map label df) \<Longrightarrow> column_of df l \<in> set df \<and> label (column_of df l) = l"
  by (induction df) (auto simp: column_of_def)

lemma select_columns_distinct:
  assumes "distinct (map label df)" and "set ls \<subseteq> set (map label df)"
  shows "select_columns ls df = map (column_of df) ls"
  using assms(2)
proof (induction ls)
  case Nil
  then show ?case by (simp add: select_columns_def)
next
  case (Cons l ls)
  then have "select_columns ls df = map (column_of df) ls" by simp
  moreover from Cons.prems have "l \<in> set (map label df)" by simp
  ultimately show ?case
    using filter_distinct_label [OF assms(1), of l]
    by (simp add: select_columns_def)
qed

lemma prepared_frame: "convert_dtypes (where_notnull_None df) = map prepare df"
  by (simp add: convert_dtypes_def where_notnull_None_def prepare_def)

lemma prepare_label [simp]: "label (prepare col) = label col"
  by (simp add: prepare_def convert_column_def)

lemma prepare_length [simp]: "length (cells (prepare col)) = length (cells col)"
  by (simp add: prepare_def convert_column_def)

lemma prepare_boxed:
  "i < length (cells col) \<Longrightarrow>
     box_native (dtype (prepare col)) (cells (prepare col) ! i) = as_output (cells col ! i)"
  by (cases "cells col ! i"; cases "dtype col")
     (auto simp: prepare_def convert_column_def)

lemma column_of_prepared:
  "l \<in> set (map label df) \<Longrightarrow> column_of (map prepare df) l = prepare (column_of df l)"
  by (induction df) (auto simp: column_of_def)

lemma kept_labels_prepared: "kept_labels (map prepare df) = kept_labels df"
  by (simp add: kept_labels_def df_columns_def comp_def)

lemma kept_labels_subset: "set (kept_labels df) \<subseteq> set (map label df)"
  by (auto simp: kept_labels_def df_columns_def)

lemma fold_min_same: "list_all (\<lambda>k. k = n) ks \<Longrightarrow> fold min ks n = (n::nat)"
  by (induction ks) auto

lemma n_tuples_same:
  assumes "cols \<noteq> []" and "list_all (\<lambda>col. length (cells col) = n) cols"
  shows "n_tuples cols = n"
proof -
  from assms obtain c cs where cols: "cols = c # cs" by (cases cols) auto
  with assms(2) have "length (cells c) = n" and "list_all (\<lambda>k. k = n) (map (\<lambda>c. length (cells c)) cs)"
    by (simp_all add: list_all_iff)
  then show ?thesis
    using fold_min_same [of n "map (\<lambda>c. length (cells c)) cs"]
    by (simp add: n_tuples_def cols)
qed

lemma map_of_table_row:
  "l \<in> set (map label df) \<Longrightarrow> map_of (table_row df i) l = Some (cells (column_of df l) ! i)"
  by (induction df) (auto simp: table_row_def column_of_def)

lemma map_of_table_row_None:
  "l \<notin> set (map label df) \<Longrightarrow> map_of (table_row df i) l = None"
  by (induction df) (auto simp: table_row_def)

lemma wf_frame_column:
  "wf_frame df \<Longrightarrow> l \<in> set (map label df) \<Longrightarrow> length (cells (column_of df l)) = n_rows df"
  using column_of_in [of l df] by (auto simp: wf_frame_def list_all_iff)

text \<open>The records of a well-formed table, row by row.\<close>

lemma normalize_wf:
  assumes "wf_frame df"
  shows "normalize df =
     (if kept_labels df = [] then []
      else map (\<lambda>i. map (\<lambda>l. (l, as_output (the (map_of (table_row df i) l)))) (kept_labels df))
             [0..<n_rows df])"
proof -
  let ?K = "kept_labels df"
  let ?sel = "map (\<lambda>l. prepare (column_of df l)) ?K"
  from assms have dist: "distinct (map label df)" by (simp add: wf_frame_def df_columns_def)
  have sub: "set ?K \<subseteq> set (map label (map prepare df))"
    using kept_labels_subset [of df] by (simp add: comp_def)
  have "select_columns ?K (map prepare df) = map (column_of (map prepare df)) ?K"
    using dist by (intro select_columns_distinct [OF _ sub]) (simp add: comp_def)
  also have "\<dots> = ?sel"
    using kept_labels_subset [of df] by (auto simp: column_of_prepared)
  finally have sel: "select_columns ?K (map prepare df) = ?sel" .
  have norm: "normalize df = to_dict_records ?sel"
    by (simp add: normalize_def Let_def prepared_frame kept_labels_prepared sel)
  show ?thesis
  proof (cases "?K = []")
    case True
    then show ?thesis by (simp add: norm to_dict_records_def n_tuples_def)
  next
    case False
    have len: "list_all (\<lambda>col. length (cells col) = n_rows df) ?sel"
      using kept_labels_subset [of df] wf_frame_column [OF assms]
      by (auto simp: list_all_iff)
    from False have "?sel \<noteq> []" by simp
    from n_tuples_same [OF this len] have n: "n_tuples ?sel = n_rows df" .
    have row: "row_record ?sel i = map (\<lambda>l. (l, as_output (the (map_of (table_row df i) l)))) ?K"
      if "i < n_rows df" for i
    proof -
      have "(label (prepare (column_of df l)),
             box_native (dtype (prepare (column_of df l))) (cells (prepare (column_of df l)) ! i))
            = (l, as_output (the (map_of (table_row df i) l)))" if "l \<in> set ?K" for l
      proof -
        from that kept_labels_subset have l: "l \<in> set (map label df)" by blast
        from wf_frame_column [OF assms l] \<open>i < n_rows df\<close>
        have "i < length (cells (column_of df l))" by simp
        from prepare_boxed [OF this] column_of_in [OF l] map_of_table_row [OF l, of i]
        show ?thesis by simp
      qed
      then show ?thesis by (simp add: row_record_def comp_def)
    qed
    from False show ?thesis
      by (simp add: norm to_dict_records_def n row)
  qed
qed

lemma map_join: "map f (join sep xss) = join (f sep) (map (map f) xss)"
  by (induction sep xss rule: join.induct) auto

lemma document_records:
  "document rs = LBracket # join Comma (map record_document rs) @ [RBracket]"
  by (simp add: document_def iterencode_def map_join record_document_def [abs_def] comp_def)

lemma record_document_fields:
  "record_document r = LBrace # join Comma (map field_document r) @ [RBrace]"
  by (simp add: record_document_def record_events_def map_join field_document_def [abs_def] comp_def)

lemma field_document_None: "field_document (l, PyNone) = [TKey l, Colon, TNull]"
  by (simp add: field_document_def field_events_def)







lemma download_returns_wf:
  assumes "fetch_table w drv = Inr df" and "download_and_parse_csv w drv a b s = (Inr rs, s')"
  shows "rs = normalize df \<and> files s' (output_filename a b) = Some (document rs)"
proof -
  from download_returns [OF assms(2)] assms(1)
  have rs: "rs = normalize df" and d: "snd (json_dump (write_limit w) rs) = None"
    and f: "files s' = (files s)(output_filename a b \<mapsto> fst (json_dump (write_limit w) rs))"
    by auto
  from d have "fst (json_dump (write_limit w) rs) = document rs"
    using json_dump_complete [of "write_limit w" rs "fst (json_dump (write_limit w) rs)"]
    by (metis prod.collapse)
  with rs f show ?thesis by simp
qed

lemma map_of_keyed: "l \<in> set ks \<Longrightarrow> map_of (map (\<lambda>k. (k, f k)) ks) l = Some (f l)"
  by (induction ks) auto



text \<open>
  C1. A cell of row \<open>i\<close> that is missing in the parsed table, under a label of the
  allow-list, is \<^verbatim>\<open>None\<close> in record \<open>i\<close> of the returned list, not a present value of
  any kind, and the field is written as \<^verbatim>\<open>null\<close> in record \<open>i\<close> of the file.
\<close>

theorem missing_cells_become_null:
  assumes "fetch_table w drv = Inr df" and "wf_frame df"
    and "download_and_parse_csv w drv a b s = (Inr rs, s')"
    and "i < n_rows df" and "l \<in> set columns_to_keep"
    and "map_of (table_row df i) l = Some c" and "\<not> notnull c"
  shows "i < length rs
       \<and> map_of (rs ! i) l = Some PyNone
       \<and> map_of (rs ! i) l \<noteq> Some (Val v)
       \<and> (l, PyNone) \<in> set (rs ! i)
       \<and> field_document (l, PyNone) = [TKey l, Colon, TNull]
       \<and> record_document (rs ! i) = LBrace # join Comma (map field_document (rs ! i)) @ [RBrace]
       \<and> files s' (output_filename a b)
            = Some (LBracket # join Comma (map record_document rs) @ [RBracket])"
proof -
  from download_returns_wf [OF assms(1,3)]
  have rs: "rs = normalize df" and f: "files s' (output_filename a b) = Some (document rs)"
    by simp_all
  from assms(6) have "l \<in> set (map label df)"
    using map_of_table_row_None [of l df i] by (cases "l \<in> set (map label df)") auto
  with assms(5) have k: "l \<in> set (kept_labels df)"
    by (simp add: kept_labels_def df_columns_def)
  then have ne: "kept_labels df \<noteq> []" by auto
  with assms(4) rs have len: "i < length rs"
    by (simp add: normalize_wf [OF assms(2)])
  from assms(7) have out: "as_output c = PyNone" by (cases c) auto
  from ne assms(4) rs have row:
    "rs ! i = map (\<lambda>l. (l, as_output (the (map_of (table_row df i) l)))) (kept_labels df)"
    by (simp add: normalize_wf [OF assms(2)])
  from map_of_keyed [OF k, of "\<lambda>l. as_output (the (map_of (table_row df i) l))"] assms(6) out
  have m: "map_of (rs ! i) l = Some PyNone" by (simp add: row)
  then have "(l, PyNone) \<in> set (rs ! i)" by (rule map_of_SomeD)
  with len m f show ?thesis
    by (simp add: document_records record_document_fields field_document_None)
qed

subsection \<open>The records of the concrete run\<close>

lemma example_table_wf: "wf_frame example_table"
  by (simp add: wf_frame_def example_table_def df_columns_def n_rows_def)

lemma example_download_at:
  "download_and_parse_csv example_world example_driver ''01-01-2025'' ''31-01-2025'' example_sys =
     (Inr (normalize example_table),
      example_sys\<lparr>files := (files example_sys)(''reservations_01-01-2025_to_31-01-2025.json'' \<mapsto>
       [LBracket, LBrace, TKey ''Status'', Colon, TScalar ''confirmed'', Comma,
         TKey ''Guest first name'', Colon, TScalar ''Ann'', RBrace, Comma,
       LBrace, TKey ''Status'', Colon, TScalar ''cancelled'', Comma,
         TKey ''Guest first name'', Colon, TNull, RBrace, RBracket])\<rparr>)"
  by (rule example_download)



theorem missing_cells_become_null_witness:
  "map_of (table_row example_table 1) ''Guest first name'' = Some NaN
   \<and> map_of (normalize example_table ! 1) ''Guest first name'' = Some PyNone
   \<and> (''Guest first name'', PyNone) \<in> set (normalize example_table ! 1)
   \<and> field_document (''Guest first name'', PyNone :: string cell) = [TKey ''Guest first name'', Colon, TNull]"
proof -
  have n: "1 < n_rows example_table" by (simp add: n_rows_def example_table_def)
  have k: "''Guest first name'' \<in> set columns_to_keep" by (simp add: columns_to_keep_def)
  have c: "map_of (table_row example_table 1) ''Guest first name'' = Some NaN"
    by (simp add: table_row_def example_table_def)
  have m: "\<not> notnull (NaN :: string cell)" by simp
  from missing_cells_become_null
    [where v = "''0''", OF example_fetch [of example_driver] example_table_wf example_download_at n k c m]
  show ?thesis using c by blast
qed

subsection \<open>Digits, white space and the two library parsers\<close>



lemma hyphen_not_space: "\<not> is_space CHR ''-''"
  by (simp add: is_space_def)




























subsection \<open>The display form\<close>


















end
